theory Spec2Isabelle
  imports Complex_Main "HOL-Library.Word"
begin

section \<open>Machine types\<close>

text \<open>
  \<open>int16_t\<close>, \<open>int32_t\<close> and \<open>jlong\<close> are words read in two's complement with \<open>sint\<close>.
  A pointer-sized value (\<open>void *\<close>, a \<open>jlong\<close> carrying a function pointer) is a 64-bit
  word, and the null pointer is \<open>0\<close>.
\<close>

type_synonym int16_t = "16 word"
type_synonym int32_t = "32 word"
type_synonym jlong = "64 word"

subsection \<open>Single-precision floating point\<close>

text \<open>
  A C \<open>float\<close> is an IEEE-754 binary32 value: a finite number \<open>m * 2 ^ e\<close> with
  \<open>\<bar>m\<bar> < 2 ^ 24\<close> and \<open>- 149 \<le> e \<le> 104\<close>, an infinity or a NaN. The finite values are
  carried as rationals. The two zeros are one value here: the program only compares
  floats, multiplies and divides them and converts them to integers, and none of these
  tells the zeros apart. An expression of type \<open>float\<close> is evaluated in binary32, each
  operation rounding once, as on the ARM and x86-64 targets of the library.
\<close>

datatype float32 = Finite rat | PInf | NInf | NaN

text \<open>Rounding a rational to the nearest integer, a tie going to the even neighbour.\<close>

definition round_half_even :: "rat \<Rightarrow> int" where
  "round_half_even x =
     (let f = \<lfloor>x\<rfloor>; d = x - of_int f
      in if d < 1 / 2 then f
         else if 1 / 2 < d then f + 1
         else if even f then f else f + 1)"

text \<open>
  The exponent of the last place of the binary32 format at \<open>q\<close>: the least \<open>e\<close> from
  \<open>- 149\<close> (the subnormal spacing) with \<open>\<bar>q\<bar> < 2 ^ (e + 24)\<close>, and at most \<open>104\<close> (the
  spacing of the largest binade).
\<close>

function ulp_exp_from :: "rat \<Rightarrow> int \<Rightarrow> int" where
  "ulp_exp_from q e =
     (if e < 104 \<and> 2 powi (e + 24) \<le> \<bar>q\<bar> then ulp_exp_from q (e + 1) else e)"
  by pat_completeness auto
termination
  by (relation "measure (\<lambda>(q, e). nat (104 - e))") auto

declare ulp_exp_from.simps [simp del]

definition ulp_exp :: "rat \<Rightarrow> int" where
  "ulp_exp q = ulp_exp_from q (- 149)"

text \<open>
  Round to nearest, ties to even, which is the rounding of every arithmetic operation
  and of every decimal literal of the program: \<open>round_to_binary32\<close> is the nearest
  multiple of the last place, and a result of magnitude \<open>2 ^ 128\<close> or more is an
  infinity.
\<close>

definition round_to_binary32 :: "rat \<Rightarrow> rat" where
  "round_to_binary32 q = (let e = ulp_exp q in of_int (round_half_even (q / 2 powi e)) * 2 powi e)"

definition round_float32 :: "rat \<Rightarrow> float32" where
  "round_float32 q =
     (let r = round_to_binary32 q
      in if 2 ^ 128 \<le> \<bar>r\<bar> then (if 0 < q then PInf else NInf) else Finite r)"

text \<open>A literal such as \<open>0.35f\<close> denotes the binary32 value nearest to the decimal.\<close>

definition float_literal :: "rat \<Rightarrow> float32" where
  "float_literal q = round_float32 q"

text \<open>The comparisons \<open>a > b\<close> and \<open>a < b\<close> of C: false as soon as an operand is a NaN.\<close>

fun fgt :: "float32 \<Rightarrow> float32 \<Rightarrow> bool" where
  "fgt NaN _ = False"
| "fgt _ NaN = False"
| "fgt (Finite a) (Finite b) = (b < a)"
| "fgt PInf PInf = False"
| "fgt PInf _ = True"
| "fgt NInf _ = False"
| "fgt (Finite a) NInf = True"
| "fgt (Finite a) PInf = False"

definition flt :: "float32 \<Rightarrow> float32 \<Rightarrow> bool" where
  "flt a b = fgt b a"

text \<open>The product \<open>a * b\<close> of two floats, rounded.\<close>

fun fmul :: "float32 \<Rightarrow> float32 \<Rightarrow> float32" where
  "fmul NaN _ = NaN"
| "fmul _ NaN = NaN"
| "fmul (Finite a) (Finite b) = round_float32 (a * b)"
| "fmul (Finite a) PInf = (if a = 0 then NaN else if 0 < a then PInf else NInf)"
| "fmul (Finite a) NInf = (if a = 0 then NaN else if 0 < a then NInf else PInf)"
| "fmul PInf (Finite b) = (if b = 0 then NaN else if 0 < b then PInf else NInf)"
| "fmul NInf (Finite b) = (if b = 0 then NaN else if 0 < b then NInf else PInf)"
| "fmul PInf PInf = PInf"
| "fmul PInf NInf = NInf"
| "fmul NInf PInf = NInf"
| "fmul NInf NInf = PInf"

text \<open>The quotient \<open>a / b\<close> of two floats, rounded; a division by zero gives an infinity or a NaN.\<close>

fun fdiv :: "float32 \<Rightarrow> float32 \<Rightarrow> float32" where
  "fdiv NaN _ = NaN"
| "fdiv _ NaN = NaN"
| "fdiv (Finite a) (Finite b) =
     (if b = 0 then (if a = 0 then NaN else if 0 < a then PInf else NInf)
      else round_float32 (a / b))"
| "fdiv (Finite a) PInf = Finite 0"
| "fdiv (Finite a) NInf = Finite 0"
| "fdiv PInf (Finite b) = (if 0 \<le> b then PInf else NInf)"
| "fdiv NInf (Finite b) = (if 0 \<le> b then NInf else PInf)"
| "fdiv PInf _ = NaN"
| "fdiv NInf _ = NaN"

text \<open>The conversion \<open>(float)s\<close> of a 16-bit integer.\<close>

definition float_of_int16 :: "int16_t \<Rightarrow> float32" where
  "float_of_int16 s = round_float32 (of_int (sint s))"

text \<open>
  The conversion \<open>(int16_t)x\<close> of a float discards the fractional part. C leaves it
  undefined when the integral part does not fit the target type, and for an infinity or a
  NaN: these are \<open>None\<close>.
\<close>

definition truncate_toward_zero :: "rat \<Rightarrow> int" where
  "truncate_toward_zero q = (if 0 \<le> q then \<lfloor>q\<rfloor> else \<lceil>q\<rceil>)"

fun int16_of_float :: "float32 \<Rightarrow> int16_t option" where
  "int16_of_float (Finite q) =
     (let t = truncate_toward_zero q
      in if - 32768 \<le> t \<and> t \<le> 32767 then Some (word_of_int t) else None)"
| "int16_of_float _ = None"

section \<open>Configuration\<close>

text \<open>
  \<open>struct VADConfig\<close>. The stub build takes it from \<open>vad_plus.h\<close>, where \<open>is_debug\<close> is a
  \<open>bool\<close>; the JNI build declares its own, where \<open>is_debug\<close> is an \<open>int32_t\<close>.
\<close>

record VADConfig =
  positive_speech_threshold :: float32
  negative_speech_threshold :: float32
  pre_speech_pad_frames :: int32_t
  redemption_frames :: int32_t
  min_speech_frames :: int32_t
  sample_rate :: int32_t
  frame_samples :: int32_t
  end_speech_pad_frames :: int32_t
  is_debug :: bool

record jni_VADConfig =
  jni_positive_speech_threshold :: float32
  jni_negative_speech_threshold :: float32
  jni_pre_speech_pad_frames :: int32_t
  jni_redemption_frames :: int32_t
  jni_min_speech_frames :: int32_t
  jni_sample_rate :: int32_t
  jni_frame_samples :: int32_t
  jni_end_speech_pad_frames :: int32_t
  jni_is_debug :: int32_t

text \<open>
  \<open>vad_config_default(config_out)\<close> of \<open>vad_plus.c\<close>. The argument is what \<open>config_out\<close>
  points to before the call, \<open>None\<close> for the null pointer; the result is what it points to
  afterwards. Storing \<open>0\<close> into a \<open>bool\<close> stores \<open>false\<close>.
\<close>

definition stub_vad_config_default :: "VADConfig option \<Rightarrow> VADConfig option" where
  "stub_vad_config_default config_out =
     (case config_out of
        None \<Rightarrow> None
      | Some c \<Rightarrow>
          Some (c\<lparr>positive_speech_threshold := float_literal (5 / 10),
                  negative_speech_threshold := float_literal (35 / 100),
                  pre_speech_pad_frames := 3,
                  redemption_frames := 24,
                  min_speech_frames := 9,
                  sample_rate := 16000,
                  frame_samples := 512,
                  end_speech_pad_frames := 3,
                  is_debug := False\<rparr>))"

text \<open>\<open>vad_config_default(config_out)\<close> of \<open>vad_plus_jni.cpp\<close>.\<close>

definition vad_config_default :: "jni_VADConfig option \<Rightarrow> jni_VADConfig option" where
  "vad_config_default config_out =
     (case config_out of
        None \<Rightarrow> None
      | Some c \<Rightarrow>
          Some (c\<lparr>jni_positive_speech_threshold := float_literal (5 / 10),
                  jni_negative_speech_threshold := float_literal (35 / 100),
                  jni_pre_speech_pad_frames := 3,
                  jni_redemption_frames := 24,
                  jni_min_speech_frames := 9,
                  jni_sample_rate := 16000,
                  jni_frame_samples := 512,
                  jni_end_speech_pad_frames := 3,
                  jni_is_debug := 0\<rparr>))"

text \<open>
  How \<open>vad_init\<close> of the JNI build reads its configuration when it hands it to the host:
  the fields as they are, and \<open>config->is_debug != 0\<close> for the flag.
\<close>

definition config_of_jni :: "jni_VADConfig \<Rightarrow> VADConfig" where
  "config_of_jni c =
     \<lparr>positive_speech_threshold = jni_positive_speech_threshold c,
      negative_speech_threshold = jni_negative_speech_threshold c,
      pre_speech_pad_frames = jni_pre_speech_pad_frames c,
      redemption_frames = jni_redemption_frames c,
      min_speech_frames = jni_min_speech_frames c,
      sample_rate = jni_sample_rate c,
      frame_samples = jni_frame_samples c,
      end_speech_pad_frames = jni_end_speech_pad_frames c,
      is_debug = (jni_is_debug c \<noteq> 0)\<rparr>"

section \<open>The stub build\<close>



definition stub_vad_init :: "jlong \<Rightarrow> VADConfig option \<Rightarrow> string option \<Rightarrow> int32_t" where
  "stub_vad_init handle config model_path = - 100"

definition stub_vad_start :: "jlong \<Rightarrow> int32_t" where
  "stub_vad_start handle = - 100"

definition stub_vad_process_audio :: "jlong \<Rightarrow> float32 list option \<Rightarrow> int32_t \<Rightarrow> int32_t" where
  "stub_vad_process_audio handle samples sample_count = - 100"


section \<open>Audio codec\<close>

text \<open>
  The body of the loop of \<open>vad_float_to_pcm16\<close>, the same text in both builds: the two
  guarded assignments, the product with \<open>32767.0f\<close> and the conversion to \<open>int16_t\<close>.
\<close>

definition float_to_pcm16_sample :: "float32 \<Rightarrow> int16_t option" where
  "float_to_pcm16_sample x =
     (let clamped = x;
          clamped = (if fgt clamped (float_literal 1) then float_literal 1 else clamped);
          clamped = (if flt clamped (float_literal (- 1)) then float_literal (- 1) else clamped)
      in int16_of_float (fmul clamped (float_literal 32767)))"

text \<open>The body of the loop of \<open>vad_pcm16_to_float\<close>.\<close>

definition pcm16_to_float_sample :: "int16_t \<Rightarrow> float32" where
  "pcm16_to_float_sample s = fdiv (float_of_int16 s) (float_literal 32768)"

text \<open>
  The loops \<open>for (int32_t i = 0; i < sample_count; i++)\<close>. A buffer is the list of the
  elements behind the pointer. The counter stays below \<open>sample_count\<close>, so \<open>i++\<close> never
  overflows and the counter is an \<open>int\<close>. An access beyond either buffer, or a conversion
  that C leaves undefined, ends the run with \<open>None\<close>; otherwise the result is the output
  buffer after the call.
\<close>

function float_to_pcm16_loop ::
  "float32 list \<Rightarrow> int16_t list \<Rightarrow> int \<Rightarrow> int \<Rightarrow> int16_t list option" where
  "float_to_pcm16_loop float_samples pcm16_samples n i =
     (if i < n then
        (if 0 \<le> i \<and> nat i < length float_samples \<and> nat i < length pcm16_samples then
           (case float_to_pcm16_sample (float_samples ! nat i) of
              None \<Rightarrow> None
            | Some v \<Rightarrow> float_to_pcm16_loop float_samples (pcm16_samples[nat i := v]) n (i + 1))
         else None)
      else Some pcm16_samples)"
  by pat_completeness auto
termination
  by (relation "measure (\<lambda>(fs, out, n, i). nat (n - i))") auto

declare float_to_pcm16_loop.simps [simp del]

definition vad_float_to_pcm16 ::
  "float32 list \<Rightarrow> int16_t list \<Rightarrow> int32_t \<Rightarrow> int16_t list option" where
  "vad_float_to_pcm16 float_samples pcm16_samples sample_count =
     float_to_pcm16_loop float_samples pcm16_samples (sint sample_count) 0"

function pcm16_to_float_loop ::
  "int16_t list \<Rightarrow> float32 list \<Rightarrow> int \<Rightarrow> int \<Rightarrow> float32 list option" where
  "pcm16_to_float_loop pcm16_samples float_samples n i =
     (if i < n then
        (if 0 \<le> i \<and> nat i < length pcm16_samples \<and> nat i < length float_samples then
           pcm16_to_float_loop pcm16_samples
             (float_samples[nat i := pcm16_to_float_sample (pcm16_samples ! nat i)]) n (i + 1)
         else None)
      else Some float_samples)"
  by pat_completeness auto
termination
  by (relation "measure (\<lambda>(ps, out, n, i). nat (n - i))") auto

declare pcm16_to_float_loop.simps [simp del]

definition vad_pcm16_to_float ::
  "int16_t list \<Rightarrow> float32 list \<Rightarrow> int32_t \<Rightarrow> float32 list option" where
  "vad_pcm16_to_float pcm16_samples float_samples sample_count =
     pcm16_to_float_loop pcm16_samples float_samples (sint sample_count) 0"

text \<open>
  The conversion in the words of the specification: the sample clamped to the interval
  from \<open>-1\<close> to \<open>1\<close>, scaled by \<open>32767\<close> (a product of floats, so rounded to binary32)
  and truncated toward zero. An infinity clamps to the end of the interval on its side. A
  NaN is not ordered, and no clamped value is given for it.
\<close>

fun clamp_unit :: "float32 \<Rightarrow> rat" where
  "clamp_unit (Finite q) = max (- 1) (min 1 q)"
| "clamp_unit PInf = 1"
| "clamp_unit NInf = - 1"

definition pcm16_of_sample :: "float32 \<Rightarrow> int" where
  "pcm16_of_sample x = truncate_toward_zero (round_to_binary32 (clamp_unit x * 32767))"

text \<open>The same with the product taken exactly, for comparison.\<close>

definition pcm16_of_sample_exact :: "float32 \<Rightarrow> int" where
  "pcm16_of_sample_exact x = truncate_toward_zero (clamp_unit x * 32767)"

section \<open>Dispatch bridge\<close>

text \<open>\<open>struct VADEventC\<close>. A pointer field is an address, \<open>None\<close> for null.\<close>

type_synonym addr = nat

record VADEventC =
  type :: int32_t
  frame_probability :: float32
  frame_is_speech :: int32_t
  frame_data :: "addr option"
  frame_length :: int32_t
  speech_end_audio_data :: "addr option"
  speech_end_audio_length :: int32_t
  speech_end_duration_ms :: int32_t
  error_message :: "addr option"
  error_code :: int32_t

text \<open>The record after \<open>memset(event, 0, sizeof(VADEventC))\<close>.\<close>

definition zeroed_event :: VADEventC where
  "zeroed_event =
     \<lparr>type = 0, frame_probability = Finite 0, frame_is_speech = 0, frame_data = None,
      frame_length = 0, speech_end_audio_data = None, speech_end_audio_length = 0,
      speech_end_duration_ms = 0, error_message = None, error_code = 0\<rparr>"

text \<open>
  What the bridge puts on the native heap: an event record (\<open>new VADEventC()\<close>), a copy
  of the audio of a speech segment (\<open>new int16_t[audioLength]\<close>) and a copy of an error
  message (\<open>strdup\<close>).
\<close>

datatype block = Event_record VADEventC | Audio_copy "int16_t list" | Message_copy string

text \<open>
  The state a delivery runs in: the live blocks of the native heap, the next address the
  allocator hands out, the number of element buffers borrowed from the host and not yet
  given back (\<open>GetShortArrayElements\<close>/\<open>ReleaseShortArrayElements\<close>,
  \<open>GetStringUTFChars\<close>/\<open>ReleaseStringUTFChars\<close>), and the callback invocations made so
  far: function pointer, event pointer, user data. Memory is never exhausted: \<open>new\<close>,
  \<open>strdup\<close> and the host's element getters succeed.
\<close>

record world =
  heap :: "addr \<Rightarrow> block option"
  next_addr :: addr
  borrowed :: nat
  fired :: "(jlong \<times> addr \<times> jlong) list"

definition new :: "block \<Rightarrow> world \<Rightarrow> addr \<times> world" where
  "new b w = (next_addr w, w\<lparr>heap := (heap w)(next_addr w \<mapsto> b), next_addr := Suc (next_addr w)\<rparr>)"

definition borrow :: "world \<Rightarrow> world" where
  "borrow w = w\<lparr>borrowed := Suc (borrowed w)\<rparr>"

definition give_back :: "world \<Rightarrow> world" where
  "give_back w = w\<lparr>borrowed := borrowed w - 1\<rparr>"

text \<open>
  The code behind a callback pointer is the receiver's, not the bridge's: it is a
  parameter, any function from the pointer called, the event pointer, the user data and
  the state to the state the callee leaves. \<open>callback(event, userData)\<close> records the
  invocation and runs it.
\<close>

type_synonym receiver = "jlong \<Rightarrow> addr \<Rightarrow> jlong \<Rightarrow> world \<Rightarrow> world"

definition call :: "receiver \<Rightarrow> jlong \<Rightarrow> addr \<Rightarrow> jlong \<Rightarrow> world \<Rightarrow> world" where
  "call rcv callback event userData w =
     rcv callback event userData (w\<lparr>fired := fired w @ [(callback, event, userData)]\<rparr>)"

text \<open>What can stop a delivery before it returns.\<close>

datatype fault = Null_reference | Bad_array_new_length | Read_out_of_bounds

text \<open>\<open>Java_dev_miracle_vad_1plus_VADHandleInternal_nativeSendEvent\<close>.\<close>

definition nativeSendEvent :: "receiver \<Rightarrow> jlong \<Rightarrow> jlong \<Rightarrow> int32_t \<Rightarrow> world \<Rightarrow> world" where
  "nativeSendEvent rcv callbackPtr userDataPtr ty w =
     (if callbackPtr = 0 then w
      else
        let (event, w) = new (Event_record (zeroed_event\<lparr>type := ty\<rparr>)) w
        in call rcv callbackPtr event userDataPtr w)"

text \<open>
  \<open>Java_dev_miracle_vad_1plus_VADHandleInternal_nativeSendFrameEvent\<close>. A \<open>jboolean\<close> is
  an unsigned byte, true when it is not zero.
\<close>

definition nativeSendFrameEvent ::
  "receiver \<Rightarrow> jlong \<Rightarrow> jlong \<Rightarrow> float32 \<Rightarrow> 8 word \<Rightarrow> int32_t \<Rightarrow> world \<Rightarrow> world" where
  "nativeSendFrameEvent rcv callbackPtr userDataPtr probability isSpeech frameLength w =
     (if callbackPtr = 0 then w
      else
        let (event, w) =
              new (Event_record (zeroed_event
                \<lparr>type := 3,
                 frame_probability := probability,
                 frame_is_speech := (if isSpeech \<noteq> 0 then 1 else 0),
                 frame_length := frameLength\<rparr>)) w
        in call rcv callbackPtr event userDataPtr w)"

text \<open>
  \<open>Java_dev_miracle_vad_1plus_VADHandleInternal_nativeSendSpeechEndEvent\<close>. \<open>audioData\<close> is
  the content of the Java array, \<open>None\<close> for a null reference. A negative \<open>audioLength\<close>
  makes the array \<open>new\<close> throw; one beyond the array makes \<open>memcpy\<close> read past the
  borrowed elements.
\<close>

definition nativeSendSpeechEndEvent ::
  "receiver \<Rightarrow> jlong \<Rightarrow> jlong \<Rightarrow> int16_t list option \<Rightarrow> int32_t \<Rightarrow> int32_t \<Rightarrow> world
     \<Rightarrow> fault + world" where
  "nativeSendSpeechEndEvent rcv callbackPtr userDataPtr audioData audioLength durationMs w =
     (if callbackPtr = 0 then Inr w
      else
        case audioData of
          None \<Rightarrow> Inl Null_reference
        | Some audioElements \<Rightarrow>
            let w = borrow w
            in if sint audioLength < 0 then Inl Bad_array_new_length
               else if int (length audioElements) < sint audioLength then Inl Read_out_of_bounds
               else
                 let (audioCopy, w) =
                       new (Audio_copy (take (nat (sint audioLength)) audioElements)) w;
                     w = give_back w;
                     (event, w) =
                       new (Event_record (zeroed_event
                         \<lparr>type := 2,
                          speech_end_audio_data := Some audioCopy,
                          speech_end_audio_length := audioLength,
                          speech_end_duration_ms := durationMs\<rparr>)) w
                 in Inr (call rcv callbackPtr event userDataPtr w))"

text \<open>
  A C string ends at its first NUL: \<open>c_string\<close> is what a reader of the bytes sees.
\<close>

definition c_string :: "string \<Rightarrow> string" where
  "c_string s = takeWhile (\<lambda>c. c \<noteq> CHR 0x00) s"

text \<open>
  \<open>Java_dev_miracle_vad_1plus_VADHandleInternal_nativeSendErrorEvent\<close>. \<open>message\<close> is the
  modified UTF-8 of the Java string, \<open>None\<close> for a null reference.
\<close>

definition nativeSendErrorEvent ::
  "receiver \<Rightarrow> jlong \<Rightarrow> jlong \<Rightarrow> string option \<Rightarrow> int32_t \<Rightarrow> world \<Rightarrow> fault + world" where
  "nativeSendErrorEvent rcv callbackPtr userDataPtr message code w =
     (if callbackPtr = 0 then Inr w
      else
        case message of
          None \<Rightarrow> Inl Null_reference
        | Some msgChars \<Rightarrow>
            let w = borrow w;
                (msgCopy, w) = new (Message_copy (c_string msgChars)) w;
                w = give_back w;
                (event, w) =
                  new (Event_record (zeroed_event
                    \<lparr>type := 6, error_message := Some msgCopy, error_code := code\<rparr>)) w
            in Inr (call rcv callbackPtr event userDataPtr w))"

section \<open>The host runtime as the native code sees it\<close>

text \<open>
  A call through the JNI either returns a value and leaves no exception pending, or
  leaves one pending (what it returned is then not used by the code).
\<close>

datatype 'a jni_result = Value 'a | Exception

type_synonym jobject = nat

definition JNI_OK :: int32_t where
  "JNI_OK = 0"

definition JNI_EDETACHED :: int32_t where
  "JNI_EDETACHED = - 2"

text \<open>
  Everything the operations below ask of the Java side, one field for each question:
  whether \<open>JNI_OnLoad\<close> stored the VM and cached the handle manager's class, the status
  of \<open>GetEnv\<close> and of \<open>AttachCurrentThread\<close> on the calling thread, whether a method
  lookup by name gives a method (\<open>Value True\<close>) or null, and what the methods of the
  handle manager and of a session object return. \<open>getHandle\<close> is the registry's lookup:
  it gives null for an id that has no session.
\<close>

record host =
  g_jvm :: bool
  GetEnv :: int32_t
  AttachCurrentThread :: int32_t
  g_handleManagerClass :: bool
  GetStaticMethodID :: "string \<Rightarrow> bool jni_result"
  createHandle :: "jlong jni_result"
  getHandle_method :: "jlong \<Rightarrow> jobject option jni_result"
  GetObjectClass :: "jobject \<Rightarrow> bool jni_result"
  GetMethodID :: "string \<Rightarrow> bool jni_result"
  getLastError :: "jobject \<Rightarrow> string option jni_result"
  GetStringUTFChars :: "string \<Rightarrow> string option"

text \<open>
  \<open>getEnv()\<close>: whether it returns an environment. \<open>GetEnv\<close> stores one only with
  \<open>JNI_OK\<close>; on \<open>JNI_EDETACHED\<close> the thread is attached, which stores one when it succeeds.
\<close>

definition getEnv :: "host \<Rightarrow> bool" where
  "getEnv h =
     (if g_jvm h then
        (if GetEnv h = JNI_EDETACHED then AttachCurrentThread h = JNI_OK
         else GetEnv h = JNI_OK)
      else False)"

text \<open>\<open>getHandle(env, handleId)\<close>: the session object, or null.\<close>

definition getHandle :: "host \<Rightarrow> jlong \<Rightarrow> jobject option" where
  "getHandle h handleId =
     (if \<not> g_handleManagerClass h then None
      else
        case GetStaticMethodID h ''getHandle'' of
          Exception \<Rightarrow> None
        | Value False \<Rightarrow> None
        | Value True \<Rightarrow>
            (case getHandle_method h handleId of
               Exception \<Rightarrow> None
             | Value result \<Rightarrow> result))"


subsection \<open>The last error\<close>

text \<open>
  What \<open>vad_get_last_error\<close> can return: a pointer to a string literal or to the static
  array \<open>g_lastErrorBuffer\<close> of 1024 bytes. \<open>string_at\<close> reads the string behind a pointer,
  given the bytes the array holds at that moment.
\<close>

datatype char_ptr = Null_ptr | String_literal string | Last_error_buffer

fun string_at :: "string \<Rightarrow> char_ptr \<Rightarrow> string option" where
  "string_at buffer Null_ptr = None"
| "string_at buffer (String_literal s) = Some s"
| "string_at buffer Last_error_buffer = Some (c_string buffer)"

text \<open>
  \<open>strncpy(dest, src, n)\<close> for \<open>n\<close> up to the size of \<open>dest\<close>: the bytes of the source
  string, filled up with NUL to \<open>n\<close> bytes, or its first \<open>n\<close> bytes when it is longer.
\<close>

definition strncpy :: "string \<Rightarrow> string \<Rightarrow> nat \<Rightarrow> string" where
  "strncpy dest src n = take n (c_string src @ replicate n (CHR 0x00)) @ drop n dest"

text \<open>
  \<open>vad_get_last_error(handle)\<close> of the JNI build, from the content of
  \<open>g_lastErrorBuffer\<close> before the call to the pointer returned and the content after.
\<close>

definition vad_get_last_error :: "host \<Rightarrow> jlong \<Rightarrow> string \<Rightarrow> char_ptr \<times> string" where
  "vad_get_last_error h handle g_lastErrorBuffer =
     (if handle = 0 then (String_literal ''Invalid handle'', g_lastErrorBuffer)
      else if \<not> getEnv h then (String_literal ''JNI error'', g_lastErrorBuffer)
      else
        case getHandle h handle of
          None \<Rightarrow> (String_literal ''Handle not found'', g_lastErrorBuffer)
        | Some handleObj \<Rightarrow>
            (if GetObjectClass h handleObj \<noteq> Value True
             then (String_literal ''Failed to get handle class'', g_lastErrorBuffer)
             else if GetMethodID h ''getLastError'' \<noteq> Value True
             then (String_literal ''Method not found'', g_lastErrorBuffer)
             else
               case getLastError h handleObj of
                 Exception \<Rightarrow> (String_literal ''Exception getting error'', g_lastErrorBuffer)
               | Value None \<Rightarrow> (String_literal [], g_lastErrorBuffer)
               | Value (Some errorStr) \<Rightarrow>
                   (case GetStringUTFChars h errorStr of
                      Some errorChars \<Rightarrow>
                        (Last_error_buffer,
                         (strncpy g_lastErrorBuffer errorChars 1023)[1023 := CHR 0x00])
                    | None \<Rightarrow> (Last_error_buffer, g_lastErrorBuffer[0 := CHR 0x00]))))"

text \<open>
  What a caller reads through the returned pointer right after the call.
\<close>

definition last_error_text :: "host \<Rightarrow> jlong \<Rightarrow> string \<Rightarrow> string option" where
  "last_error_text h handle g_lastErrorBuffer =
     (let (p, buffer) = vad_get_last_error h handle g_lastErrorBuffer in string_at buffer p)"

text \<open>
  The path of \<open>vad_get_last_error\<close> on which the handle is not null, the environment is
  there, the registry has a session object for the id, the class and the method are
  found and \<open>getLastError\<close> returns the string \<open>errorStr\<close>.
\<close>

definition reaches_message :: "host \<Rightarrow> jlong \<Rightarrow> jobject \<Rightarrow> string \<Rightarrow> bool" where
  "reaches_message h handle handleObj errorStr \<longleftrightarrow>
     handle \<noteq> 0 \<and> getEnv h \<and> getHandle h handle = Some handleObj
     \<and> GetObjectClass h handleObj = Value True
     \<and> GetMethodID h ''getLastError'' = Value True
     \<and> getLastError h handleObj = Value (Some errorStr)"

text \<open>
  The string such a call leaves in the buffer: the first 1023 bytes of the message at
  most, and nothing when the host cannot hand out the bytes.
\<close>

definition copied_message :: "host \<Rightarrow> string \<Rightarrow> string" where
  "copied_message h errorStr =
     (case GetStringUTFChars h errorStr of
        Some errorChars \<Rightarrow> take 1023 (c_string errorChars)
      | None \<Rightarrow> [])"

section \<open>The session registry\<close>

text \<open>
  Modelled from the spec: the states of a session, of which the registry, host code that
  is not among the sources, keeps one for each id.
\<close>

datatype session_state = Created | Initialized | Listening | Stopped | Destroyed

text \<open>
  Modelled from the spec: the Session Registry, the handle manager of the host that
  \<open>vad_create\<close>, \<open>vad_destroy\<close> and \<open>getHandle\<close> call and that is not among the sources.
  It maps the ids to the sessions, and \<open>issued\<close> is every id it has handed out in its
  lifetime, in the order of the creates.
\<close>

record registry =
  sessions :: "jlong \<Rightarrow> session_state option"
  issued :: "jlong list"









section \<open>Inputs for the examples\<close>

text \<open>A receiver that returns at once and touches nothing, and a state with an empty heap.\<close>

definition idle_receiver :: receiver where
  "idle_receiver callback event userData w = w"

definition empty_world :: world where
  "empty_world = \<lparr>heap = Map.empty, next_addr = 0, borrowed = 0, fired = []\<rparr>"

text \<open>
  A host in which every lookup and call succeeds: the handle manager issues \<open>next_id\<close>,
  its registry is \<open>registry\<close>, and the session objects hold the messages \<open>errors\<close>.
\<close>

definition working_host ::
  "jlong \<Rightarrow> (jlong \<Rightarrow> jobject option) \<Rightarrow> (jobject \<Rightarrow> string option) \<Rightarrow> host" where
  "working_host next_id registry errors =
     \<lparr>g_jvm = True, GetEnv = JNI_OK, AttachCurrentThread = JNI_OK,
      g_handleManagerClass = True,
      GetStaticMethodID = (\<lambda>name. Value True),
      createHandle = Value next_id,
      getHandle_method = (\<lambda>handleId. Value (registry handleId)),
      GetObjectClass = (\<lambda>obj. Value True),
      GetMethodID = (\<lambda>name. Value True),
      getLastError = (\<lambda>obj. Value (errors obj)),
      GetStringUTFChars = Some\<rparr>"

text \<open>A host that was never loaded: \<open>JNI_OnLoad\<close> did not run.\<close>

definition unloaded_host :: host where
  "unloaded_host = (working_host 0 Map.empty Map.empty)\<lparr>g_jvm := False\<rparr>"

section \<open>Properties of the rounding\<close>

text \<open>
  The search for the exponent of the last place stays between \<open>- 149\<close> and \<open>104\<close>,
  stops below the bound \<open>2 ^ (e + 24)\<close> and has passed every smaller bound.
\<close>

lemma round_half_even_of_int [simp]: "round_half_even (of_int m) = m"
  by (simp add: round_half_even_def)

lemma ulp_exp_from_bounds:
  "e0 \<le> 104 \<Longrightarrow> e0 \<le> ulp_exp_from q e0 \<and> ulp_exp_from q e0 \<le> 104"
proof (induction q e0 rule: ulp_exp_from.induct)
  case (1 q e)
  show ?case
  proof (cases "e < 104 \<and> 2 powi (e + 24) \<le> \<bar>q\<bar>")
    case True
    with 1 show ?thesis by (subst (1 2) ulp_exp_from.simps) auto
  next
    case False
    with 1 show ?thesis by (subst (1 2) ulp_exp_from.simps) auto
  qed
qed

lemma ulp_exp_from_upper:
  "e0 \<le> 104 \<Longrightarrow> ulp_exp_from q e0 < 104 \<Longrightarrow> \<bar>q\<bar> < 2 powi (ulp_exp_from q e0 + 24)"
proof (induction q e0 rule: ulp_exp_from.induct)
  case (1 q e)
  show ?case
  proof (cases "e < 104 \<and> 2 powi (e + 24) \<le> \<bar>q\<bar>")
    case True
    then have eq: "ulp_exp_from q e = ulp_exp_from q (e + 1)"
      by (subst ulp_exp_from.simps) simp
    with 1 True show ?thesis by auto
  next
    case False
    then have eq: "ulp_exp_from q e = e"
      by (subst ulp_exp_from.simps) auto
    with 1 False show ?thesis by auto
  qed
qed

lemma ulp_exp_from_lower:
  "e0 \<le> e \<Longrightarrow> e < ulp_exp_from q e0 \<Longrightarrow> 2 powi (e + 24) \<le> \<bar>q\<bar>"
proof (induction q e0 rule: ulp_exp_from.induct)
  case (1 q e0)
  show ?case
  proof (cases "e0 < 104 \<and> 2 powi (e0 + 24) \<le> \<bar>q\<bar>")
    case True
    then have eq: "ulp_exp_from q e0 = ulp_exp_from q (e0 + 1)"
      by (subst ulp_exp_from.simps) simp
    show ?thesis
    proof (cases "e = e0")
      case True
      with \<open>e0 < 104 \<and> 2 powi (e0 + 24) \<le> \<bar>q\<bar>\<close> show ?thesis by simp
    next
      case False
      with 1 True eq show ?thesis by auto
    qed
  next
    case False
    then have eq: "ulp_exp_from q e0 = e0"
      by (subst ulp_exp_from.simps) auto
    with 1 show ?thesis by auto
  qed
qed

lemma ulp_exp_range: "- 149 \<le> ulp_exp q \<and> ulp_exp q \<le> 104"
  unfolding ulp_exp_def using ulp_exp_from_bounds [of "- 149" q] by simp

lemma ulp_exp_upper: "ulp_exp q < 104 \<Longrightarrow> \<bar>q\<bar> < 2 powi (ulp_exp q + 24)"
  unfolding ulp_exp_def using ulp_exp_from_upper [of "- 149" q] by simp

lemma ulp_exp_lower: "- 149 \<le> e \<Longrightarrow> e < ulp_exp q \<Longrightarrow> 2 powi (e + 24) \<le> \<bar>q\<bar>"
  unfolding ulp_exp_def using ulp_exp_from_lower [of "- 149" e q] by simp

lemma ulp_exp_eqI:
  assumes lo: "- 149 \<le> e" and hi: "e \<le> 104"
    and above: "e < 104 \<Longrightarrow> \<bar>q\<bar> < 2 powi (e + 24)"
    and below: "- 149 < e \<Longrightarrow> 2 powi (e + 23) \<le> \<bar>q\<bar>"
  shows "ulp_exp q = e"
proof (rule antisym)
  show "ulp_exp q \<le> e"
  proof (rule ccontr)
    assume "\<not> ulp_exp q \<le> e"
    then have less: "e < ulp_exp q" by simp
    with lo have "2 powi (e + 24) \<le> \<bar>q\<bar>" by (rule ulp_exp_lower)
    moreover from less ulp_exp_range [of q] have "e < 104" by simp
    ultimately show False using above by simp
  qed
next
  show "e \<le> ulp_exp q"
  proof (rule ccontr)
    assume "\<not> e \<le> ulp_exp q"
    then have less: "ulp_exp q < e" by simp
    with hi have "\<bar>q\<bar> < 2 powi (ulp_exp q + 24)" by (intro ulp_exp_upper) simp
    also have "(2::rat) powi (ulp_exp q + 24) \<le> 2 powi (e + 23)"
      using less by (intro power_int_increasing) auto
    also have "\<dots> \<le> \<bar>q\<bar>"
      using less ulp_exp_range [of q] by (intro below) simp
    finally show False by simp
  qed
qed

text \<open>
  A number that already is a binary32 value, \<open>m * 2 ^ k\<close> with \<open>\<bar>m\<bar> < 2 ^ 24\<close>, is left
  as it is: operations whose exact result is representable do not round.
\<close>

lemma round_to_binary32_exact:
  assumes q: "q = of_int m * 2 powi k" and m: "\<bar>m\<bar> < 2 ^ 24" and lo: "- 149 \<le> k"
  shows "round_to_binary32 q = q"
proof -
  define e where "e = ulp_exp q"
  have abs_q: "\<bar>q\<bar> < 2 powi (k + 24)"
  proof -
    have "\<bar>q\<bar> = of_int \<bar>m\<bar> * 2 powi k"
      by (simp add: q abs_mult)
    also have "\<dots> < 2 ^ 24 * 2 powi k"
    proof -
      have "(of_int \<bar>m\<bar> :: rat) < of_int (2 ^ 24)"
        using m by (simp only: of_int_less_iff)
      then show ?thesis by (intro mult_strict_right_mono) auto
    qed
    also have "\<dots> = 2 powi (k + 24)"
      by (simp add: power_int_add)
    finally show ?thesis .
  qed
  have e_le: "e \<le> k"
  proof (rule ccontr)
    assume "\<not> e \<le> k"
    then have "k < ulp_exp q" by (simp add: e_def)
    with lo have "2 powi (k + 24) \<le> \<bar>q\<bar>" by (rule ulp_exp_lower)
    with abs_q show False by simp
  qed
  define d where "d = nat (k - e)"
  have k: "k = e + int d" using e_le by (simp add: d_def)
  have scaled: "q / 2 powi e = of_int (m * 2 ^ d)"
    by (simp add: q k power_int_add)
  have rounded: "round_half_even (q / 2 powi e) = m * 2 ^ d"
    using round_half_even_of_int [of "m * 2 ^ d"] by (simp add: scaled)
  have restored: "of_int (m * 2 ^ d) * 2 powi e = q"
    by (simp add: q k power_int_add)
  show ?thesis
    unfolding round_to_binary32_def Let_def e_def [symmetric] rounded
    using restored by simp
qed

lemma round_float32_exact:
  assumes q: "q = of_int m * 2 powi k" and m: "\<bar>m\<bar> < 2 ^ 24"
    and lo: "- 149 \<le> k" and hi: "k \<le> 104"
  shows "round_float32 q = Finite q"
proof -
  have "\<bar>q\<bar> = of_int \<bar>m\<bar> * 2 powi k"
    by (simp add: q abs_mult)
  also have "\<dots> < 2 ^ 24 * 2 powi k"
  proof -
    have "(of_int \<bar>m\<bar> :: rat) < of_int (2 ^ 24)"
      using m by (simp only: of_int_less_iff)
    then show ?thesis by (intro mult_strict_right_mono) auto
  qed
  also have "\<dots> = 2 powi (k + 24)"
    by (simp add: power_int_add)
  also have "\<dots> \<le> 2 powi 128"
    using hi by (intro power_int_increasing) auto
  finally have "\<bar>q\<bar> < 2 ^ 128" by simp
  then show ?thesis
    by (simp add: round_float32_def round_to_binary32_exact [OF q m lo])
qed

lemma round_float32_of_int:
  "\<bar>m\<bar> < 2 ^ 24 \<Longrightarrow> round_float32 (of_int m) = Finite (of_int m)"
  using round_float32_exact [of "of_int m" m 0] by simp

lemma round_to_binary32_of_int: "\<bar>m\<bar> < 2 ^ 24 \<Longrightarrow> round_to_binary32 (of_int m) = of_int m"
  using round_to_binary32_exact [of "of_int m" m 0] by simp

lemma float_literal_1: "float_literal 1 = Finite 1"
  using round_float32_of_int [of 1] by (simp add: float_literal_def)

lemma float_literal_m1: "float_literal (- 1) = Finite (- 1)"
  using round_float32_of_int [of "- 1"] by (simp add: float_literal_def)

lemma float_literal_32767: "float_literal 32767 = Finite 32767"
  using round_float32_of_int [of 32767] by (simp add: float_literal_def)

lemma float_literal_32768: "float_literal 32768 = Finite 32768"
  using round_float32_of_int [of 32768] by (simp add: float_literal_def)

lemma float_literal_half: "float_literal (1 / 2) = Finite (1 / 2)"
  using round_float32_exact [of "1 / 2" 1 "- 1"] by (simp add: float_literal_def)



lemma ulp_exp_035: "ulp_exp (7 / 20) = - 25"
  by (rule ulp_exp_eqI) (simp_all add: power_int_minus_divide)

lemma float_literal_035: "float_literal (7 / 20) = Finite (11744051 / 33554432)"
proof -
  have "\<lfloor>58720256 / 5 :: rat\<rfloor> = 11744051"
    by (rule floor_unique) simp_all
  then show ?thesis
    by (simp add: float_literal_def round_float32_def round_to_binary32_def ulp_exp_035
        round_half_even_def power_int_minus_divide Let_def)
qed

text \<open>Rounding never crosses an integer, so a product of magnitude at most \<open>32767\<close> stays there.\<close>

lemma round_half_even_le: "x \<le> of_int b \<Longrightarrow> round_half_even x \<le> b"
proof -
  assume le: "x \<le> of_int b"
  then have fl: "\<lfloor>x\<rfloor> \<le> b" by (simp add: floor_le_iff)
  show ?thesis
  proof (cases "\<lfloor>x\<rfloor> = b")
    case True
    then have "of_int b \<le> x" by (metis of_int_floor_le)
    with le have "x = of_int b" by simp
    then show ?thesis by (simp add: round_half_even_def)
  next
    case False
    with fl have "\<lfloor>x\<rfloor> + 1 \<le> b" by simp
    then show ?thesis by (simp add: round_half_even_def Let_def)
  qed
qed

lemma round_half_even_ge: "of_int a \<le> x \<Longrightarrow> a \<le> round_half_even x"
proof -
  assume "of_int a \<le> x"
  then have "a \<le> \<lfloor>x\<rfloor>" by (simp add: le_floor_iff)
  then show ?thesis by (simp add: round_half_even_def Let_def)
qed

lemma round_to_binary32_le_32767:
  assumes "\<bar>q\<bar> \<le> 32767"
  shows "\<bar>round_to_binary32 q\<bar> \<le> 32767"
proof -
  define e where "e = ulp_exp q"
  have e_le: "e \<le> - 9"
  proof (rule ccontr)
    assume "\<not> e \<le> - 9"
    then have "- 9 < ulp_exp q" by (simp add: e_def)
    then have "2 powi (- 9 + 24) \<le> \<bar>q\<bar>" by (intro ulp_exp_lower) simp_all
    with assms show False by simp
  qed
  define d where "d = nat (- e)"
  have e: "e = - int d" using e_le by (simp add: d_def)
  define B :: int where "B = 32767 * 2 ^ d"
  have pos: "(0::rat) < 2 ^ d" by simp
  have scaled: "q / 2 powi e = q * 2 ^ d"
    by (simp add: e power_int_minus field_simps)
  have "\<bar>q * 2 ^ d\<bar> \<le> 32767 * 2 ^ d"
    using assms by (simp add: abs_mult)
  then have up: "q * 2 ^ d \<le> of_int B" and down: "of_int (- B) \<le> q * 2 ^ d"
    by (simp_all add: B_def abs_le_iff)
  define m where "m = round_half_even (q * 2 ^ d)"
  have "m \<le> B" "- B \<le> m"
    using round_half_even_le [OF up] round_half_even_ge [OF down] by (simp_all add: m_def)
  then have "\<bar>m\<bar> \<le> B" by simp
  then have "(of_int \<bar>m\<bar> :: rat) \<le> of_int B" by (simp only: of_int_le_iff)
  then have "\<bar>of_int m :: rat\<bar> \<le> 32767 * 2 ^ d" by (simp add: B_def)
  then have "\<bar>of_int m / 2 ^ d :: rat\<bar> \<le> 32767"
    by (simp add: abs_divide pos_divide_le_eq)
  moreover have "round_to_binary32 q = of_int m / 2 ^ d"
    unfolding round_to_binary32_def Let_def e_def [symmetric] scaled m_def [symmetric]
    by (simp add: e power_int_minus field_simps)
  ultimately show ?thesis by simp
qed

text \<open>
  A product that is rounded up to an integer: \<open>1 - 2 ^ - 30\<close> is the exact product of the
  float \<open>32769 * 2 ^ - 30\<close> and \<open>32767\<close>, and the nearest binary32 value is \<open>1\<close>.
\<close>

lemma round_example: "round_to_binary32 (1073741823 / 1073741824) = 1"
proof -
  have e: "ulp_exp (1073741823 / 1073741824) = - 24"
    by (rule ulp_exp_eqI) (simp_all add: power_int_minus_divide)
  have "\<lfloor>1073741823 / 64 :: rat\<rfloor> = 16777215"
    by (rule floor_unique) simp_all
  then show ?thesis
    by (simp add: round_to_binary32_def e round_half_even_def power_int_minus_divide Let_def)
qed

section \<open>Properties of the codec\<close>

text \<open>
  For a sample that is not a NaN the two guarded assignments clamp, the product stays
  within \<open>32767\<close> in magnitude, and the conversion to \<open>int16_t\<close> is defined.
\<close>

lemma truncate_toward_zero_bound:
  assumes "\<bar>r\<bar> \<le> of_int b"
  shows "\<bar>truncate_toward_zero r\<bar> \<le> b"
proof (cases "0 \<le> r")
  case True
  then have "0 \<le> \<lfloor>r\<rfloor>" by simp
  moreover from assms True have "\<lfloor>r\<rfloor> \<le> b" by (simp add: floor_le_iff)
  ultimately show ?thesis using True by (simp add: truncate_toward_zero_def)
next
  case False
  then have "\<lceil>r\<rceil> \<le> 0" by (simp add: ceiling_le_iff)
  moreover from assms False have "- b \<le> \<lceil>r\<rceil>" by (simp add: le_ceiling_iff)
  ultimately show ?thesis using False by (simp add: truncate_toward_zero_def)
qed

lemma clamp_unit_bound: "x \<noteq> NaN \<Longrightarrow> \<bar>clamp_unit x\<bar> \<le> 1"
  by (cases x) (auto simp: abs_le_iff)

lemma scaled_bound: "x \<noteq> NaN \<Longrightarrow> \<bar>round_to_binary32 (clamp_unit x * 32767)\<bar> \<le> 32767"
proof -
  assume "x \<noteq> NaN"
  then have "\<bar>clamp_unit x\<bar> * 32767 \<le> 1 * 32767"
    by (intro mult_right_mono clamp_unit_bound) simp_all
  then have "\<bar>clamp_unit x * 32767\<bar> \<le> 32767" by (simp add: abs_mult)
  then show ?thesis by (rule round_to_binary32_le_32767)
qed

lemma pcm16_of_sample_range:
  "x \<noteq> NaN \<Longrightarrow> - 32767 \<le> pcm16_of_sample x \<and> pcm16_of_sample x \<le> 32767"
proof -
  assume "x \<noteq> NaN"
  then have "\<bar>round_to_binary32 (clamp_unit x * 32767)\<bar> \<le> of_int 32767"
    using scaled_bound [of x] by simp
  then have "\<bar>pcm16_of_sample x\<bar> \<le> 32767"
    unfolding pcm16_of_sample_def by (rule truncate_toward_zero_bound)
  then show ?thesis by linarith
qed

lemma clamped_product:
  assumes "\<bar>c\<bar> \<le> 1"
  shows "int16_of_float (fmul (Finite c) (float_literal 32767)) =
     Some (word_of_int (truncate_toward_zero (round_to_binary32 (c * 32767))))"
proof -
  have "\<bar>c\<bar> * 32767 \<le> 1 * 32767"
    using assms by (intro mult_right_mono) simp_all
  then have "\<bar>c * 32767\<bar> \<le> 32767" by (simp add: abs_mult)
  then have r: "\<bar>round_to_binary32 (c * 32767)\<bar> \<le> 32767"
    by (rule round_to_binary32_le_32767)
  then have "\<bar>round_to_binary32 (c * 32767)\<bar> \<le> of_int 32767" by simp
  then have "\<bar>truncate_toward_zero (round_to_binary32 (c * 32767))\<bar> \<le> 32767"
    by (rule truncate_toward_zero_bound)
  then have "- 32768 \<le> truncate_toward_zero (round_to_binary32 (c * 32767))
      \<and> truncate_toward_zero (round_to_binary32 (c * 32767)) \<le> 32767"
    by linarith
  moreover from r have "\<not> 2 ^ 128 \<le> \<bar>round_to_binary32 (c * 32767)\<bar>" by simp
  ultimately show ?thesis
    by (simp add: float_literal_32767 round_float32_def Let_def)
qed

lemma float_to_pcm16_sample_eq:
  assumes "x \<noteq> NaN"
  shows "float_to_pcm16_sample x = Some (word_of_int (pcm16_of_sample x))"
proof (cases x)
  case (Finite q)
  have "\<bar>max (- 1) (min 1 q)\<bar> \<le> 1" by (simp add: abs_le_iff)
  from clamped_product [OF this]
  show ?thesis
    unfolding Finite float_to_pcm16_sample_def pcm16_of_sample_def Let_def
    using clamped_product [of 1] clamped_product [of "- 1"] clamped_product [of q]
    by (auto simp add: float_literal_1 float_literal_m1 flt_def max_def min_def)
next
  case PInf
  show ?thesis
    unfolding PInf float_to_pcm16_sample_def pcm16_of_sample_def Let_def
    using clamped_product [of 1]
    by (simp add: float_literal_1 float_literal_m1 flt_def)
next
  case NInf
  show ?thesis
    unfolding NInf float_to_pcm16_sample_def pcm16_of_sample_def Let_def
    using clamped_product [of "- 1"]
    by (simp add: float_literal_1 float_literal_m1 flt_def)
next
  case NaN
  with assms show ?thesis by simp
qed

lemma float_to_pcm16_sample_NaN: "float_to_pcm16_sample NaN = None"
  by (simp add: float_to_pcm16_sample_def flt_def float_literal_1 float_literal_m1
      float_literal_32767)

lemma sint_pcm16_of_sample:
  assumes "x \<noteq> NaN"
  shows "sint (word_of_int (pcm16_of_sample x) :: int16_t) = pcm16_of_sample x"
proof -
  from pcm16_of_sample_range [OF assms]
  have "- (2 ^ 15) \<le> pcm16_of_sample x" and "pcm16_of_sample x < 2 ^ 15" by simp_all
  then have "signed_take_bit 15 (pcm16_of_sample x) = pcm16_of_sample x"
    by (rule signed_take_bit_int_eq_self)
  then show ?thesis by (simp add: sint_sbintrunc')
qed

text \<open>
  A 16-bit integer is a float as it is, and so is its quotient by \<open>32768 = 2 ^ 15\<close>:
  \<open>vad_pcm16_to_float\<close> never rounds.
\<close>

lemma pcm16_to_float_sample_eq:
  "pcm16_to_float_sample s = Finite (of_int (sint s) / 32768)"
proof -
  have range: "- (2 ^ 15) \<le> sint s" "sint s < 2 ^ 15"
    using sint_ge [of s] sint_lt [of s] by simp_all
  then have small: "\<bar>sint s\<bar> < 2 ^ 24" by simp
  have conv: "float_of_int16 s = Finite (of_int (sint s))"
    unfolding float_of_int16_def using small by (rule round_float32_of_int)
  have "round_float32 (of_int (sint s) / 32768) = Finite (of_int (sint s) / 32768)"
    using small
    by (intro round_float32_exact [where m = "sint s" and k = "- 15"])
      (simp_all add: power_int_minus_divide)
  then show ?thesis
    by (simp add: pcm16_to_float_sample_def conv float_literal_32768)
qed

text \<open>
  The loops, started at any index: the output up to the index is kept, the indices up to
  \<open>n\<close> receive the converted samples, the rest of the output is kept.
\<close>

lemma float_to_pcm16_loop_eq:
  assumes "0 \<le> i" and "i \<le> n" and "nat n \<le> length fs" and "nat n \<le> length out"
    and "NaN \<notin> set (take (nat n) fs)"
  shows "float_to_pcm16_loop fs out n i =
     Some (take (nat i) out
           @ map (\<lambda>x. word_of_int (pcm16_of_sample x)) (drop (nat i) (take (nat n) fs))
           @ drop (nat n) out)"
  using assms
proof (induction fs out n i rule: float_to_pcm16_loop.induct)
  case (1 fs out n i)
  show ?case
  proof (cases "i < n")
    case False
    with "1.prems" have "i = n" by simp
    then show ?thesis
      using "1.prems" by (subst float_to_pcm16_loop.simps) simp
  next
    case True
    define j where "j = nat i"
    define v :: int16_t where "v = word_of_int (pcm16_of_sample (fs ! j))"
    have j: "j < nat n" "j < length fs" "j < length out" "nat (i + 1) = Suc j"
      using True "1.prems" by (simp_all add: j_def)
    have "fs ! j \<in> set (take (nat n) fs)"
      using j by (metis in_set_conv_nth length_take min.absorb2 nth_take "1.prems"(3))
    with "1.prems" have "fs ! j \<noteq> NaN" by metis
    then have sample: "float_to_pcm16_sample (fs ! nat i) = Some v"
      by (simp add: float_to_pcm16_sample_eq v_def j_def)
    have in_range: "0 \<le> i \<and> nat i < length fs \<and> nat i < length out"
      using j "1.prems" by (simp add: j_def)
    have step: "float_to_pcm16_loop fs out n i = float_to_pcm16_loop fs (out[nat i := v]) n (i + 1)"
      using True in_range sample by (subst float_to_pcm16_loop.simps) simp
    have "float_to_pcm16_loop fs (out[nat i := v]) n (i + 1) =
        Some (take (nat (i + 1)) (out[nat i := v])
              @ map (\<lambda>x. word_of_int (pcm16_of_sample x)) (drop (nat (i + 1)) (take (nat n) fs))
              @ drop (nat n) (out[nat i := v]))"
      using True in_range sample "1.prems" by (intro "1.IH") simp_all
    also have "take (nat (i + 1)) (out[nat i := v]) = take j out @ [v]"
      using j by (simp add: j_def [symmetric] take_Suc_conv_app_nth)
    also have "drop (nat n) (out[nat i := v]) = drop (nat n) out"
      using j by (simp add: j_def [symmetric])
    also have "(take j out @ [v])
          @ map (\<lambda>x. word_of_int (pcm16_of_sample x)) (drop (nat (i + 1)) (take (nat n) fs))
          @ drop (nat n) out
        = take j out
          @ map (\<lambda>x. word_of_int (pcm16_of_sample x)) (drop j (take (nat n) fs))
          @ drop (nat n) out"
    proof -
      have "drop j (take (nat n) fs) = fs ! j # drop (Suc j) (take (nat n) fs)"
        using j by (simp flip: Cons_nth_drop_Suc)
      then show ?thesis by (simp add: j v_def)
    qed
    finally show ?thesis by (simp add: step j_def)
  qed
qed

lemma pcm16_to_float_loop_eq:
  assumes "0 \<le> i" and "i \<le> n" and "nat n \<le> length ps" and "nat n \<le> length out"
  shows "pcm16_to_float_loop ps out n i =
     Some (take (nat i) out
           @ map pcm16_to_float_sample (drop (nat i) (take (nat n) ps))
           @ drop (nat n) out)"
  using assms
proof (induction ps out n i rule: pcm16_to_float_loop.induct)
  case (1 ps out n i)
  show ?case
  proof (cases "i < n")
    case False
    with "1.prems" have "i = n" by simp
    then show ?thesis
      using "1.prems" by (subst pcm16_to_float_loop.simps) simp
  next
    case True
    define j where "j = nat i"
    define v where "v = pcm16_to_float_sample (ps ! j)"
    have j: "j < nat n" "j < length ps" "j < length out" "nat (i + 1) = Suc j"
      using True "1.prems" by (simp_all add: j_def)
    have in_range: "0 \<le> i \<and> nat i < length ps \<and> nat i < length out"
      using j "1.prems" by (simp add: j_def)
    have step: "pcm16_to_float_loop ps out n i = pcm16_to_float_loop ps (out[nat i := v]) n (i + 1)"
      using True in_range by (subst pcm16_to_float_loop.simps) (simp add: v_def j_def)
    have "pcm16_to_float_loop ps (out[nat i := v]) n (i + 1) =
        Some (take (nat (i + 1)) (out[nat i := v])
              @ map pcm16_to_float_sample (drop (nat (i + 1)) (take (nat n) ps))
              @ drop (nat n) (out[nat i := v]))"
      unfolding v_def j_def using True in_range "1.prems" by (intro "1.IH") simp_all
    also have "take (nat (i + 1)) (out[nat i := v]) = take j out @ [v]"
      using j by (simp add: j_def [symmetric] take_Suc_conv_app_nth)
    also have "drop (nat n) (out[nat i := v]) = drop (nat n) out"
      using j by (simp add: j_def [symmetric])
    also have "(take j out @ [v])
          @ map pcm16_to_float_sample (drop (nat (i + 1)) (take (nat n) ps))
          @ drop (nat n) out
        = take j out
          @ map pcm16_to_float_sample (drop j (take (nat n) ps))
          @ drop (nat n) out"
    proof -
      have "drop j (take (nat n) ps) = ps ! j # drop (Suc j) (take (nat n) ps)"
        using j by (simp flip: Cons_nth_drop_Suc)
      then show ?thesis by (simp add: j v_def)
    qed
    finally show ?thesis by (simp add: step j_def)
  qed
qed

lemma vad_float_to_pcm16_eq:
  assumes "0 \<le> sint sample_count" and "nat (sint sample_count) \<le> length float_samples"
    and "nat (sint sample_count) \<le> length pcm16_samples"
    and "NaN \<notin> set (take (nat (sint sample_count)) float_samples)"
  shows "vad_float_to_pcm16 float_samples pcm16_samples sample_count =
     Some (map (\<lambda>x. word_of_int (pcm16_of_sample x)) (take (nat (sint sample_count)) float_samples)
           @ drop (nat (sint sample_count)) pcm16_samples)"
  unfolding vad_float_to_pcm16_def
  using float_to_pcm16_loop_eq [of 0 "sint sample_count" float_samples pcm16_samples] assms
  by simp

lemma vad_pcm16_to_float_eq:
  assumes "0 \<le> sint sample_count" and "nat (sint sample_count) \<le> length pcm16_samples"
    and "nat (sint sample_count) \<le> length float_samples"
  shows "vad_pcm16_to_float pcm16_samples float_samples sample_count =
     Some (map (\<lambda>s. Finite (of_int (sint s) / 32768)) (take (nat (sint sample_count)) pcm16_samples)
           @ drop (nat (sint sample_count)) float_samples)"
  unfolding vad_pcm16_to_float_def
  using pcm16_to_float_loop_eq [of 0 "sint sample_count" pcm16_samples float_samples] assms
  by (simp add: pcm16_to_float_sample_eq [abs_def])


lemma pcm16_of_sample_half: "pcm16_of_sample (Finite (1 / 2)) = 16383"
proof -
  have product: "clamp_unit (Finite (1 / 2)) * 32767 = 32767 / 2"
    by simp
  have rounded: "round_to_binary32 (32767 / 2) = 32767 / 2"
    by (rule round_to_binary32_exact [where m = 32767 and k = "- 1"]) simp_all
  have "\<lfloor>32767 / 2 :: rat\<rfloor> = 16383"
    by (rule floor_unique) simp_all
  then show ?thesis
    unfolding pcm16_of_sample_def product rounded by (simp add: truncate_toward_zero_def)
qed



section \<open>Properties of the last-error buffer\<close>

lemma c_string_no_NUL: "CHR 0x00 \<notin> set (c_string s)"
  unfolding c_string_def by (metis (mono_tags, lifting) set_takeWhileD)

lemma c_string_prefix:
  assumes "CHR 0x00 \<notin> set xs"
  shows "c_string (xs @ CHR 0x00 # ys) = xs"
  unfolding c_string_def using assms by (auto simp add: takeWhile_tail takeWhile_eq_all_conv)


lemma c_string_literals:
  "c_string ''no model'' = ''no model''" "c_string ''busy'' = ''busy''"
  by (simp_all add: c_string_def)

lemma copied_buffer:
  assumes "length buffer = 1024"
  shows "(strncpy buffer src 1023)[1023 := CHR 0x00] =
     take 1023 (c_string src @ replicate 1023 (CHR 0x00)) @ [CHR 0x00]"
proof -
  define copied where "copied = take 1023 (c_string src @ replicate 1023 (CHR 0x00))"
  have len: "length copied = 1023" by (simp add: copied_def)
  from assms have "length (drop 1023 buffer) = 1" by simp
  then obtain c where rest: "drop 1023 buffer = [c]"
    by (cases "drop 1023 buffer") auto
  have copy: "strncpy buffer src 1023 = copied @ [c]"
    by (simp only: strncpy_def copied_def rest)
  show ?thesis
    unfolding copy copied_def [symmetric] using len by (simp add: list_update_append)
qed

lemma copied_buffer_string:
  "c_string (take 1023 (c_string src @ replicate 1023 (CHR 0x00)) @ [CHR 0x00]) =
     take 1023 (c_string src)"
proof -
  have shape: "take 1023 (c_string src @ replicate 1023 (CHR 0x00)) @ [CHR 0x00] =
      take 1023 (c_string src)
        @ CHR 0x00 # replicate (1023 - length (c_string src)) (CHR 0x00)"
    by (simp add: replicate_append_same)
  have "CHR 0x00 \<notin> set (take 1023 (c_string src))"
    using c_string_no_NUL [of src] by (meson in_set_takeD)
  then show ?thesis
    unfolding shape by (rule c_string_prefix)
qed

lemma length_copied_buffer:
  "length (take 1023 (c_string src @ replicate 1023 (CHR 0x00)) @ [CHR 0x00]) = 1024"
  by (simp add: min_def)

lemma emptied_buffer_string:
  assumes "length buffer = 1024"
  shows "c_string (buffer[0 := CHR 0x00]) = []"
  using assms by (cases buffer) (simp_all add: c_string_def)

lemma vad_get_last_error_message:
  assumes "reaches_message h handle handleObj errorStr" and "length buffer = 1024"
  shows "vad_get_last_error h handle buffer =
     (Last_error_buffer,
      case GetStringUTFChars h errorStr of
        Some errorChars \<Rightarrow> take 1023 (c_string errorChars @ replicate 1023 (CHR 0x00)) @ [CHR 0x00]
      | None \<Rightarrow> buffer[0 := CHR 0x00])"
  using assms
  by (simp add: vad_get_last_error_def reaches_message_def copied_buffer split: option.splits)

lemma vad_get_last_error_literal:
  "fst (vad_get_last_error h handle buffer) \<noteq> Last_error_buffer \<Longrightarrow>
   snd (vad_get_last_error h handle buffer) = buffer"
  by (simp add: vad_get_last_error_def split: if_splits option.splits jni_result.splits)

lemma last_error_text_message:
  assumes "reaches_message h handle handleObj errorStr" and "length buffer = 1024"
  shows "last_error_text h handle buffer = Some (copied_message h errorStr)"
proof (cases "GetStringUTFChars h errorStr")
  case None
  then show ?thesis
    unfolding last_error_text_def vad_get_last_error_message [OF assms] copied_message_def
    using emptied_buffer_string [OF assms(2)] by simp
next
  case (Some errorChars)
  then show ?thesis
    unfolding last_error_text_def vad_get_last_error_message [OF assms] copied_message_def
    by (simp only: option.case split_conv Let_def string_at.simps copied_buffer_string)
qed

lemma length_after_message:
  assumes "reaches_message h handle handleObj errorStr" and "length buffer = 1024"
  shows "length (snd (vad_get_last_error h handle buffer)) = 1024"
proof (cases "GetStringUTFChars h errorStr")
  case None
  then show ?thesis
    unfolding vad_get_last_error_message [OF assms] using assms(2) by simp
next
  case (Some errorChars)
  then show ?thesis
    unfolding vad_get_last_error_message [OF assms]
    by (simp only: option.case snd_conv length_copied_buffer)
qed

lemma getEnv_working_host: "getEnv (working_host next_id registry errors)"
  by (simp add: getEnv_def working_host_def JNI_OK_def JNI_EDETACHED_def)

lemma getHandle_working_host:
  "getHandle (working_host next_id registry errors) handle = registry handle"
  by (simp add: getHandle_def working_host_def)

lemma reaches_message_working_host:
  "handle \<noteq> 0 \<Longrightarrow> registry handle = Some obj \<Longrightarrow> errors obj = Some msg \<Longrightarrow>
   reaches_message (working_host next_id registry errors) handle obj msg"
  by (simp add: reaches_message_def getEnv_working_host getHandle_working_host)
    (simp add: working_host_def)

lemma copied_message_working_host:
  "copied_message (working_host next_id registry errors) msg = take 1023 (c_string msg)"
  by (simp add: copied_message_def working_host_def)

section \<open>Properties of the registry\<close>











section \<open>The dispatch bridge\<close>

subsection \<open>Delivery without a listener\<close>

text \<open>
  C1. A delivery whose callback pointer is null returns the state it was given, for each
  of the four delivery routines: no callback invocation is added to \<open>fired\<close>, no block
  is added to the heap, and no borrowed element buffer is outstanding. The routines test
  the pointer before they allocate anything, so there is nothing to release.
\<close>

theorem absent_callback_drops_event:
  "nativeSendEvent rcv 0 userDataPtr ty w = w
   \<and> nativeSendFrameEvent rcv 0 userDataPtr probability isSpeech frameLength w = w
   \<and> nativeSendSpeechEndEvent rcv 0 userDataPtr audioData audioLength durationMs w = Inr w
   \<and> nativeSendErrorEvent rcv 0 userDataPtr message code w = Inr w"
  by (simp add: nativeSendEvent_def nativeSendFrameEvent_def nativeSendSpeechEndEvent_def
      nativeSendErrorEvent_def)

subsection \<open>Delivery to a listener\<close>

text \<open>
  C3 has the bridge free the event record before the delivery routine returns. The
  routines do not: with a receiver that releases nothing, the callback has been invoked
  and the record is still on the heap when \<open>nativeSendEvent\<close> returns.
\<close>

theorem event_record_not_freed_counterexample:
  "fired (nativeSendEvent idle_receiver 1 0 0 empty_world) = [(1, 0, 0)]
   \<and> heap (nativeSendEvent idle_receiver 1 0 0 empty_world) 0
       = Some (Event_record (zeroed_event\<lparr>type := 0\<rparr>))"
  by (simp add: nativeSendEvent_def new_def call_def idle_receiver_def empty_world_def)

text \<open>
  C3, as the code has it. In every delivery that invokes the callback the bridge frees
  nothing it allocated for the call: each of the four routines returns the state exactly
  as the receiver left it, and the receiver was entered with the event record allocated
  and, for a speech end or an error, with the copy of the audio or of the message
  allocated too. The blocks stay allocated unless the receiver releases them. (A speech
  end is delivered when \<open>audioLength\<close> is not negative and not beyond the array.)
\<close>

theorem callback_leaves_event_allocated:
  assumes "callbackPtr \<noteq> 0"
  shows "nativeSendEvent rcv callbackPtr userDataPtr ty w =
       rcv callbackPtr (next_addr w) userDataPtr
         (w\<lparr>heap := (heap w)(next_addr w \<mapsto> Event_record (zeroed_event\<lparr>type := ty\<rparr>)),
            next_addr := Suc (next_addr w),
            fired := fired w @ [(callbackPtr, next_addr w, userDataPtr)]\<rparr>)
     \<and> nativeSendFrameEvent rcv callbackPtr userDataPtr probability isSpeech frameLength w =
       rcv callbackPtr (next_addr w) userDataPtr
         (w\<lparr>heap := (heap w)(next_addr w \<mapsto> Event_record (zeroed_event
               \<lparr>type := 3, frame_probability := probability,
                frame_is_speech := (if isSpeech \<noteq> 0 then 1 else 0),
                frame_length := frameLength\<rparr>)),
            next_addr := Suc (next_addr w),
            fired := fired w @ [(callbackPtr, next_addr w, userDataPtr)]\<rparr>)
     \<and> (0 \<le> sint audioLength \<and> sint audioLength \<le> int (length audioElements) \<longrightarrow>
        nativeSendSpeechEndEvent rcv callbackPtr userDataPtr (Some audioElements) audioLength
            durationMs w =
          Inr (rcv callbackPtr (Suc (next_addr w)) userDataPtr
            (w\<lparr>heap := (heap w)
                  (next_addr w \<mapsto> Audio_copy (take (nat (sint audioLength)) audioElements),
                   Suc (next_addr w) \<mapsto> Event_record (zeroed_event
                     \<lparr>type := 2, speech_end_audio_data := Some (next_addr w),
                      speech_end_audio_length := audioLength,
                      speech_end_duration_ms := durationMs\<rparr>)),
               next_addr := Suc (Suc (next_addr w)),
               fired := fired w @ [(callbackPtr, Suc (next_addr w), userDataPtr)]\<rparr>)))
     \<and> nativeSendErrorEvent rcv callbackPtr userDataPtr (Some msgChars) code w =
       Inr (rcv callbackPtr (Suc (next_addr w)) userDataPtr
         (w\<lparr>heap := (heap w)
               (next_addr w \<mapsto> Message_copy (c_string msgChars),
                Suc (next_addr w) \<mapsto> Event_record (zeroed_event
                  \<lparr>type := 6, error_message := Some (next_addr w), error_code := code\<rparr>)),
            next_addr := Suc (Suc (next_addr w)),
            fired := fired w @ [(callbackPtr, Suc (next_addr w), userDataPtr)]\<rparr>))"
proof (intro conjI impI)
  show "nativeSendEvent rcv callbackPtr userDataPtr ty w =
       rcv callbackPtr (next_addr w) userDataPtr
         (w\<lparr>heap := (heap w)(next_addr w \<mapsto> Event_record (zeroed_event\<lparr>type := ty\<rparr>)),
            next_addr := Suc (next_addr w),
            fired := fired w @ [(callbackPtr, next_addr w, userDataPtr)]\<rparr>)"
    using assms by (simp add: nativeSendEvent_def new_def call_def)
  show "nativeSendFrameEvent rcv callbackPtr userDataPtr probability isSpeech frameLength w =
       rcv callbackPtr (next_addr w) userDataPtr
         (w\<lparr>heap := (heap w)(next_addr w \<mapsto> Event_record (zeroed_event
               \<lparr>type := 3, frame_probability := probability,
                frame_is_speech := (if isSpeech \<noteq> 0 then 1 else 0),
                frame_length := frameLength\<rparr>)),
            next_addr := Suc (next_addr w),
            fired := fired w @ [(callbackPtr, next_addr w, userDataPtr)]\<rparr>)"
    using assms by (simp add: nativeSendFrameEvent_def new_def call_def)
  show "nativeSendSpeechEndEvent rcv callbackPtr userDataPtr (Some audioElements) audioLength
            durationMs w =
          Inr (rcv callbackPtr (Suc (next_addr w)) userDataPtr
            (w\<lparr>heap := (heap w)
                  (next_addr w \<mapsto> Audio_copy (take (nat (sint audioLength)) audioElements),
                   Suc (next_addr w) \<mapsto> Event_record (zeroed_event
                     \<lparr>type := 2, speech_end_audio_data := Some (next_addr w),
                      speech_end_audio_length := audioLength,
                      speech_end_duration_ms := durationMs\<rparr>)),
               next_addr := Suc (Suc (next_addr w)),
               fired := fired w @ [(callbackPtr, Suc (next_addr w), userDataPtr)]\<rparr>))"
    if "0 \<le> sint audioLength \<and> sint audioLength \<le> int (length audioElements)"
    using assms that
    by (simp add: nativeSendSpeechEndEvent_def new_def call_def borrow_def give_back_def)
  show "nativeSendErrorEvent rcv callbackPtr userDataPtr (Some msgChars) code w =
       Inr (rcv callbackPtr (Suc (next_addr w)) userDataPtr
         (w\<lparr>heap := (heap w)
               (next_addr w \<mapsto> Message_copy (c_string msgChars),
                Suc (next_addr w) \<mapsto> Event_record (zeroed_event
                  \<lparr>type := 6, error_message := Some (next_addr w), error_code := code\<rparr>)),
            next_addr := Suc (Suc (next_addr w)),
            fired := fired w @ [(callbackPtr, Suc (next_addr w), userDataPtr)]\<rparr>))"
    using assms
    by (simp add: nativeSendErrorEvent_def new_def call_def borrow_def give_back_def)
qed

text \<open>The statement at a receiver that does nothing, on an empty heap.\<close>

theorem callback_leaves_event_allocated_witness:
  "(1 :: jlong) \<noteq> 0
   \<and> 0 \<le> sint (2 :: int32_t) \<and> sint (2 :: int32_t) \<le> int (length [10, 20, 30 :: int16_t])
   \<and> heap (nativeSendEvent idle_receiver 1 5 7 empty_world) 0
       = Some (Event_record (zeroed_event\<lparr>type := 7\<rparr>))
   \<and> fired (nativeSendEvent idle_receiver 1 5 7 empty_world) = [(1, 0, 5)]
   \<and> nativeSendSpeechEndEvent idle_receiver 1 5 (Some [10, 20, 30]) 2 40 empty_world
       = Inr \<lparr>heap = [0 \<mapsto> Audio_copy [10, 20],
                      1 \<mapsto> Event_record (zeroed_event
                        \<lparr>type := 2, speech_end_audio_data := Some 0,
                         speech_end_audio_length := 2, speech_end_duration_ms := 40\<rparr>)],
              next_addr = 2, borrowed = 0, fired = [(1, 1, 5)]\<rparr>"
  using callback_leaves_event_allocated [where callbackPtr = 1 and rcv = idle_receiver
      and userDataPtr = 5 and ty = 7 and w = empty_world and audioLength = 2
      and audioElements = "[10, 20, 30]" and durationMs = 40]
  by (simp add: idle_receiver_def empty_world_def numeral_2_eq_2)

section \<open>The last error\<close>




text \<open>
  C10 has a later call for any handle overwrite what the pointers returned before point
  to. A later call for an id without a session returns a fixed message and leaves the
  buffer alone: the pointer returned before still reads as the earlier message.
\<close>

theorem later_call_keeps_buffer_counterexample:
  "fst (vad_get_last_error (working_host 1 [7 \<mapsto> 0] [0 \<mapsto> ''no model'']) 7
       (replicate 1024 (CHR 0x00)))
     = Last_error_buffer
   \<and> last_error_text (working_host 1 [7 \<mapsto> 0] [0 \<mapsto> ''no model'']) 7
       (replicate 1024 (CHR 0x00))
     = Some ''no model''
   \<and> fst (vad_get_last_error (working_host 1 [7 \<mapsto> 0] [0 \<mapsto> ''no model'']) 9
       (snd (vad_get_last_error (working_host 1 [7 \<mapsto> 0] [0 \<mapsto> ''no model'']) 7
          (replicate 1024 (CHR 0x00)))))
     = String_literal ''Handle not found''
   \<and> string_at
       (snd (vad_get_last_error (working_host 1 [7 \<mapsto> 0] [0 \<mapsto> ''no model'']) 9
          (snd (vad_get_last_error (working_host 1 [7 \<mapsto> 0] [0 \<mapsto> ''no model'']) 7
             (replicate 1024 (CHR 0x00))))))
       (fst (vad_get_last_error (working_host 1 [7 \<mapsto> 0] [0 \<mapsto> ''no model'']) 7
          (replicate 1024 (CHR 0x00))))
     = Some ''no model''"
proof -
  define H where "H = working_host 1 [7 \<mapsto> 0] [0 \<mapsto> ''no model'']"
  define B where "B = snd (vad_get_last_error H 7 (replicate 1024 (CHR 0x00)))"
  have r: "reaches_message H 7 0 ''no model''"
    unfolding H_def by (rule reaches_message_working_host) simp_all
  have len: "length (replicate 1024 (CHR 0x00)) = 1024" by simp
  have first: "fst (vad_get_last_error H 7 (replicate 1024 (CHR 0x00))) = Last_error_buffer"
    using r len by (simp add: vad_get_last_error_message)
  have msg: "last_error_text H 7 (replicate 1024 (CHR 0x00)) = Some ''no model''"
    using last_error_text_message [OF r len]
    by (simp add: H_def copied_message_working_host c_string_literals)
  have later: "vad_get_last_error H 9 B = (String_literal ''Handle not found'', B)"
    by (simp add: vad_get_last_error_def H_def getEnv_working_host getHandle_working_host)
  from msg first have "string_at B Last_error_buffer = Some ''no model''"
    by (simp add: last_error_text_def B_def split_beta)
  with first msg later show ?thesis
    unfolding H_def [symmetric] B_def [symmetric] by simp
qed

text \<open>
  C10, as the code has it. A call that reaches a session and gets a message from it
  returns the pointer to \<open>g_lastErrorBuffer\<close>, whose 1024 bytes are then the first 1023
  bytes of the message at most, filled up with NUL, and a NUL in the last place; nothing
  of the earlier content is left. So after a later such call, for the same or another
  handle and another host state, the pointer returned by the earlier call reads as the
  later message. A call that returns one of the fixed messages leaves the buffer as it
  was.
\<close>

theorem last_error_shares_one_buffer:
  assumes "reaches_message h handle handleObj errorStr"
    and "length buffer = 1024"
    and "reaches_message h' handle' handleObj' errorStr'"
  shows "fst (vad_get_last_error h handle buffer) = Last_error_buffer
     \<and> length (snd (vad_get_last_error h handle buffer)) = 1024
     \<and> last_error_text h handle buffer = Some (copied_message h errorStr)
     \<and> length (copied_message h errorStr) \<le> 1023
     \<and> (\<forall>errorChars. GetStringUTFChars h errorStr = Some errorChars \<longrightarrow>
          snd (vad_get_last_error h handle buffer) =
            take 1023 (c_string errorChars @ replicate 1023 (CHR 0x00)) @ [CHR 0x00])
     \<and> string_at (snd (vad_get_last_error h' handle' (snd (vad_get_last_error h handle buffer))))
          (fst (vad_get_last_error h handle buffer))
        = Some (copied_message h' errorStr')
     \<and> (fst (vad_get_last_error h'' handle'' buffer'') \<noteq> Last_error_buffer \<longrightarrow>
          snd (vad_get_last_error h'' handle'' buffer'') = buffer'')"
proof (intro conjI allI impI)
  show "snd (vad_get_last_error h'' handle'' buffer'') = buffer''"
    if "fst (vad_get_last_error h'' handle'' buffer'') \<noteq> Last_error_buffer"
    using that by (rule vad_get_last_error_literal)
  show first: "fst (vad_get_last_error h handle buffer) = Last_error_buffer"
    using assms(1,2) by (simp add: vad_get_last_error_message)
  show len: "length (snd (vad_get_last_error h handle buffer)) = 1024"
    using assms(1,2) by (rule length_after_message)
  show "last_error_text h handle buffer = Some (copied_message h errorStr)"
    using assms(1,2) by (rule last_error_text_message)
  show "length (copied_message h errorStr) \<le> 1023"
    by (simp add: copied_message_def split: option.splits)
  show "snd (vad_get_last_error h handle buffer) =
      take 1023 (c_string errorChars @ replicate 1023 (CHR 0x00)) @ [CHR 0x00]"
    if "GetStringUTFChars h errorStr = Some errorChars" for errorChars
    using assms(1,2) that by (simp add: vad_get_last_error_message)
  have "fst (vad_get_last_error h' handle' (snd (vad_get_last_error h handle buffer)))
      = Last_error_buffer"
    using assms(3) len by (simp add: vad_get_last_error_message)
  moreover have "last_error_text h' handle' (snd (vad_get_last_error h handle buffer))
      = Some (copied_message h' errorStr')"
    using assms(3) len by (rule last_error_text_message)
  ultimately show "string_at
        (snd (vad_get_last_error h' handle' (snd (vad_get_last_error h handle buffer))))
        (fst (vad_get_last_error h handle buffer))
      = Some (copied_message h' errorStr')"
    by (simp add: first last_error_text_def split_beta)
qed

text \<open>The statement for two sessions, \<open>7\<close> asked first and \<open>8\<close> second.\<close>

theorem last_error_shares_one_buffer_witness:
  "reaches_message (working_host 1 [7 \<mapsto> 0] [0 \<mapsto> ''no model'']) 7 0 ''no model''
   \<and> reaches_message (working_host 1 [7 \<mapsto> 0, 8 \<mapsto> 1] [0 \<mapsto> ''no model'', 1 \<mapsto> ''busy'']) 8 1 ''busy''
   \<and> last_error_text (working_host 1 [7 \<mapsto> 0] [0 \<mapsto> ''no model'']) 7
        (replicate 1024 (CHR 0x00)) = Some ''no model''
   \<and> string_at
        (snd (vad_get_last_error
           (working_host 1 [7 \<mapsto> 0, 8 \<mapsto> 1] [0 \<mapsto> ''no model'', 1 \<mapsto> ''busy'']) 8
           (snd (vad_get_last_error (working_host 1 [7 \<mapsto> 0] [0 \<mapsto> ''no model'']) 7
              (replicate 1024 (CHR 0x00))))))
        (fst (vad_get_last_error (working_host 1 [7 \<mapsto> 0] [0 \<mapsto> ''no model'']) 7
           (replicate 1024 (CHR 0x00))))
      = Some ''busy''
   \<and> fst (vad_get_last_error unloaded_host 7 ''busy'') \<noteq> Last_error_buffer
   \<and> snd (vad_get_last_error unloaded_host 7 ''busy'') = ''busy''"
proof -
  have r1: "reaches_message (working_host 1 [7 \<mapsto> 0] [0 \<mapsto> ''no model'']) 7 0 ''no model''"
    by (rule reaches_message_working_host) simp_all
  have r2: "reaches_message
      (working_host 1 [7 \<mapsto> 0, 8 \<mapsto> 1] [0 \<mapsto> ''no model'', 1 \<mapsto> ''busy'']) 8 1 ''busy''"
    by (rule reaches_message_working_host) simp_all
  have len: "length (replicate 1024 (CHR 0x00)) = 1024" by simp
  have "\<not> getEnv unloaded_host"
    by (simp add: getEnv_def unloaded_host_def working_host_def)
  then have literal: "fst (vad_get_last_error unloaded_host 7 ''busy'') \<noteq> Last_error_buffer"
    by (simp add: vad_get_last_error_def)
  show ?thesis
    using last_error_shares_one_buffer [OF r1 len r2,
        where h'' = unloaded_host and handle'' = 7 and buffer'' = "''busy''"] r1 r2 literal
    by (auto simp add: copied_message_working_host c_string_literals)
qed

section \<open>The stub build returns the reserved code\<close>

text \<open>
  C5. In the stub build \<open>vad_init\<close>, \<open>vad_start\<close> and \<open>vad_process_audio\<close> each return
  \<open>-100\<close>, whatever the handle, the configuration, the model path, the sample buffer and
  the sample count are.
\<close>

theorem stub_returns_minus_100:
  "sint (stub_vad_init handle config model_path) = - 100
   \<and> sint (stub_vad_start handle) = - 100
   \<and> sint (stub_vad_process_audio handle samples sample_count) = - 100"
  by (simp add: stub_vad_init_def stub_vad_start_def stub_vad_process_audio_def)

section \<open>The default configuration\<close>

text \<open>
  C6. For a non-null output location both builds store the same configuration: the
  thresholds \<open>0.5\<close> and \<open>0.35\<close> as floats, \<open>3\<close>, \<open>24\<close> and \<open>9\<close> frames, \<open>16000\<close> Hz,
  \<open>512\<close> samples, \<open>3\<close> frames and a debug flag that is off. \<open>0.5\<close> is a float; the float
  of the literal \<open>0.35f\<close> is \<open>11744051 / 2 ^ 25\<close>, within \<open>2 ^ - 26\<close> of \<open>0.35\<close>. Read the way
  \<open>vad_init\<close> reads it, the configuration of the JNI build is that of the stub build.
\<close>

theorem config_default_values:
  "stub_vad_config_default (Some c) =
     Some \<lparr>positive_speech_threshold = Finite (1 / 2),
           negative_speech_threshold = Finite (11744051 / 33554432),
           pre_speech_pad_frames = 3, redemption_frames = 24, min_speech_frames = 9,
           sample_rate = 16000, frame_samples = 512, end_speech_pad_frames = 3,
           is_debug = False\<rparr>
   \<and> vad_config_default (Some d) =
     Some \<lparr>jni_positive_speech_threshold = Finite (1 / 2),
           jni_negative_speech_threshold = Finite (11744051 / 33554432),
           jni_pre_speech_pad_frames = 3, jni_redemption_frames = 24,
           jni_min_speech_frames = 9, jni_sample_rate = 16000, jni_frame_samples = 512,
           jni_end_speech_pad_frames = 3, jni_is_debug = 0\<rparr>
   \<and> map_option config_of_jni (vad_config_default (Some d)) = stub_vad_config_default (Some c)
   \<and> float_literal (35 / 100) = Finite (11744051 / 33554432)
   \<and> \<bar>11744051 / 33554432 - 35 / 100\<bar> \<le> (1 / 2 ^ 26 :: rat)"
  by (simp add: stub_vad_config_default_def vad_config_default_def config_of_jni_def
      float_literal_half float_literal_035)

section \<open>The codec\<close>

text \<open>
  C7 states the conversion for every input buffer, and as clamping, scaling and
  truncating. For a NaN sample neither guard of the loop body holds and the conversion
  of the product to \<open>int16_t\<close> is not defined: no output is produced. And the scaling is a
  product of floats, which is rounded before it is truncated: the float
  \<open>32769 * 2 ^ - 30\<close> is converted to \<open>1\<close>, where the exact product \<open>1 - 2 ^ - 30\<close>
  truncates to \<open>0\<close>.
\<close>

theorem float_to_pcm16_counterexample:
  "vad_float_to_pcm16 [NaN] [0] 1 = None
   \<and> vad_float_to_pcm16 [Finite (32769 / 1073741824)] [0] 1 = Some [1]
   \<and> pcm16_of_sample_exact (Finite (32769 / 1073741824)) = 0"
proof (intro conjI)
  show "vad_float_to_pcm16 [NaN] [0] 1 = None"
    by (simp add: vad_float_to_pcm16_def float_to_pcm16_loop.simps float_to_pcm16_sample_NaN)
  have "pcm16_of_sample (Finite (32769 / 1073741824)) = 1"
    by (simp add: pcm16_of_sample_def round_example truncate_toward_zero_def)
  then show "vad_float_to_pcm16 [Finite (32769 / 1073741824)] [0] 1 = Some [1]"
    using vad_float_to_pcm16_eq [of 1 "[Finite (32769 / 1073741824)]" "[0]"] by simp
  have "\<lfloor>1073741823 / 1073741824 :: rat\<rfloor> = 0"
    by (rule floor_unique) simp_all
  then show "pcm16_of_sample_exact (Finite (32769 / 1073741824)) = 0"
    by (simp add: pcm16_of_sample_exact_def truncate_toward_zero_def)
qed

text \<open>
  C7, as the code has it. For a sample count \<open>N \<ge> 0\<close>, buffers of at least \<open>N\<close> elements
  and no NaN among the first \<open>N\<close> samples, \<open>vad_float_to_pcm16\<close> writes at each index
  below \<open>N\<close> the sample clamped to the interval from \<open>-1\<close> to \<open>1\<close>, multiplied by \<open>32767\<close>
  as a float and truncated toward zero, a value between \<open>-32767\<close> and \<open>32767\<close> that the
  16 bits hold without wrapping; \<open>vad_pcm16_to_float\<close> writes at each index below \<open>N\<close>
  the sample divided by \<open>32768\<close>, exactly; both leave the output beyond \<open>N\<close> as it was.
\<close>

theorem codec_elementwise:
  assumes "0 \<le> sint sample_count"
    and "nat (sint sample_count) \<le> length float_samples"
    and "nat (sint sample_count) \<le> length pcm16_out"
    and "NaN \<notin> set (take (nat (sint sample_count)) float_samples)"
    and "nat (sint sample_count) \<le> length pcm16_samples"
    and "nat (sint sample_count) \<le> length float_out"
  shows "vad_float_to_pcm16 float_samples pcm16_out sample_count =
       Some (map (\<lambda>x. word_of_int (pcm16_of_sample x))
               (take (nat (sint sample_count)) float_samples)
             @ drop (nat (sint sample_count)) pcm16_out)
     \<and> (\<forall>x \<in> set (take (nat (sint sample_count)) float_samples).
          sint (word_of_int (pcm16_of_sample x) :: int16_t) = pcm16_of_sample x)
     \<and> vad_pcm16_to_float pcm16_samples float_out sample_count =
       Some (map (\<lambda>s. Finite (of_int (sint s) / 32768))
               (take (nat (sint sample_count)) pcm16_samples)
             @ drop (nat (sint sample_count)) float_out)"
proof (intro conjI ballI)
  show "vad_float_to_pcm16 float_samples pcm16_out sample_count =
       Some (map (\<lambda>x. word_of_int (pcm16_of_sample x))
               (take (nat (sint sample_count)) float_samples)
             @ drop (nat (sint sample_count)) pcm16_out)"
    using assms by (intro vad_float_to_pcm16_eq)
  show "vad_pcm16_to_float pcm16_samples float_out sample_count =
       Some (map (\<lambda>s. Finite (of_int (sint s) / 32768))
               (take (nat (sint sample_count)) pcm16_samples)
             @ drop (nat (sint sample_count)) float_out)"
    using assms by (intro vad_pcm16_to_float_eq)
  fix x
  assume "x \<in> set (take (nat (sint sample_count)) float_samples)"
  with assms(4) have "x \<noteq> NaN" by metis
  then show "sint (word_of_int (pcm16_of_sample x) :: int16_t) = pcm16_of_sample x"
    by (rule sint_pcm16_of_sample)
qed

text \<open>
  The statement for two samples, a half and an infinity, in buffers of three elements.
\<close>

theorem codec_elementwise_witness:
  "0 \<le> sint (2 :: int32_t)
   \<and> NaN \<notin> set (take (nat (sint (2 :: int32_t))) [Finite (1 / 2), PInf, NaN])
   \<and> vad_float_to_pcm16 [Finite (1 / 2), PInf, NaN] [7, 7, 7] 2 = Some [16383, 32767, 7]
   \<and> vad_pcm16_to_float [16383, - 32768] [NaN, NaN] 2 = Some [Finite (16383 / 32768), Finite (- 1)]"
proof -
  have "pcm16_of_sample PInf = 32767"
    using round_to_binary32_of_int [of 32767]
    by (simp add: pcm16_of_sample_def truncate_toward_zero_def)
  then show ?thesis
    using codec_elementwise [where sample_count = 2
        and float_samples = "[Finite (1 / 2), PInf, NaN]" and pcm16_out = "[7, 7, 7]"
        and pcm16_samples = "[16383, - 32768]" and float_out = "[NaN, NaN]"]
    by (simp add: pcm16_of_sample_half numeral_2_eq_2)
qed




section \<open>Handles\<close>




end
